theory Spec2Isabelle
  imports Main "HOL-Library.Multiset"
begin

section \<open>The persistent store\<close>

text \<open>
  The backend keeps every game in three tables of a relational store: \<open>Games\<close>,
  \<open>GameTiles\<close> and \<open>GameMoves\<close>. A table is the list of its rows. User ids are JS
  values; the model takes \<open>nat\<close> for them, with \<open>0\<close> the number zero (the placeholder
  the code writes into \<open>winner_id\<close>, and a falsy session user). The column \<open>gameID\<close>
  of \<open>GameTiles\<close> and \<open>GameMoves\<close> is written \<open>tile_gameID\<close> and \<open>move_gameID\<close>.
  A query of the store answers from the rows it holds: a failure of the store itself
  (network, constraint) is not part of the model of the routes.
\<close>

record game_row =
  gameID :: nat
  game_uuid :: string
  player1_id :: nat
  player2_id :: nat
  current_turn :: nat
  status :: string
  winner_id :: nat
  boneyard_count :: int

record tile_row =
  titleID :: nat
  tile_gameID :: nat
  top_value :: int
  bottom_value :: int
  location :: string
  board_position :: int

record move_row =
  move_gameID :: nat
  player_id :: nat
  move_type :: string
  tile_top :: "int option"
  tile_bottom :: "int option"
  play_side :: "string option"

record db =
  Games :: "game_row list"
  GameTiles :: "tile_row list"
  GameMoves :: "move_row list"
  next_gameID :: nat
  next_titleID :: nat

text \<open>\<open>.single()\<close> of the store's client: the one row of the answer, an error when the
  answer holds no row or several.\<close>

fun single :: "'a list \<Rightarrow> 'a option" where
  "single [x] = Some x"
| "single _ = None"

definition game_by_uuid :: "db \<Rightarrow> string \<Rightarrow> game_row option" where
  "game_by_uuid d gameUuid = single (filter (\<lambda>g. game_uuid g = gameUuid) (Games d))"

section \<open>The game routes\<close>

datatype http_error =
    AuthenticationRequired      \<comment> \<open>401\<close>
  | GameNotFound                \<comment> \<open>404\<close>
  | NotYourTurn                 \<comment> \<open>403 \<open>Not your turn\<close>\<close>
  | TileNotInHand               \<comment> \<open>400 \<open>Tile not found in your hand\<close>\<close>
  | BoneyardEmpty               \<comment> \<open>400 \<open>Boneyard is empty\<close>\<close>
  | NoTilesInBoneyard           \<comment> \<open>400 \<open>No tiles in boneyard\<close>\<close>
  | FailedToPlayTile            \<comment> \<open>500\<close>
  | FailedToDrawTile            \<comment> \<open>500\<close>

datatype http_ok =
    PlayOk tile_row nat         \<comment> \<open>the updated tile, \<open>nextTurn\<close>\<close>
  | DrawOk tile_row int         \<comment> \<open>the drawn tile, \<open>boneyardCount\<close>\<close>
  | PassOk nat                  \<comment> \<open>\<open>nextTurn\<close>\<close>
  | EndOk

type_synonym response = "http_error + http_ok"

text \<open>\<open>requireAuth\<close> lets a request pass when the session has a user:
  \<open>!req.session.userId\<close> holds for a session without a user and for the user id \<open>0\<close>.
  The routes answer with an error (\<open>Inl\<close>) or with the body of the success, and return
  the store as they leave it; \<open>sessUser\<close> is the user of the session of the request.\<close>

definition requireAuth :: "nat option \<Rightarrow> bool" where
  "requireAuth sessUser = (case sessUser of None \<Rightarrow> False | Some u \<Rightarrow> u \<noteq> 0)"

definition nextTurnPlayerId :: "game_row \<Rightarrow> nat" where
  "nextTurnPlayerId game =
     (if current_turn game = player1_id game then player2_id game else player1_id game)"

definition update_current_turn :: "nat \<Rightarrow> nat \<Rightarrow> game_row list \<Rightarrow> game_row list" where
  "update_current_turn gid turn gs =
     map (\<lambda>g. if gameID g = gid then g\<lparr>current_turn := turn\<rparr> else g) gs"

record play_body =
  tileId :: nat
  side :: string
  boardPosition :: int
  topValue :: "int option"
  bottomValue :: "int option"

text \<open>The left placement shifts the board: the route reads the board tiles of the game in
  the order of \<open>board_position\<close> and updates them one by one, each by its \<open>titleID\<close>, to
  the position it read plus one.\<close>

definition existingBoardTiles :: "nat \<Rightarrow> tile_row list \<Rightarrow> tile_row list" where
  "existingBoardTiles gid ts =
     sort_key board_position (filter (\<lambda>t. tile_gameID t = gid \<and> location t = ''board'') ts)"

definition shift_one :: "tile_row \<Rightarrow> tile_row list \<Rightarrow> tile_row list" where
  "shift_one existingTile ts =
     map (\<lambda>t. if titleID t = titleID existingTile
              then t\<lparr>board_position := board_position existingTile + 1\<rparr> else t) ts"

definition shift_board :: "nat \<Rightarrow> tile_row list \<Rightarrow> tile_row list" where
  "shift_board gid ts = foldl (\<lambda>acc e. shift_one e acc) ts (existingBoardTiles gid ts)"

definition updateData :: "play_body \<Rightarrow> tile_row \<Rightarrow> tile_row" where
  "updateData body t =
     (let t' = t\<lparr>location := ''board'', board_position := boardPosition body\<rparr>
      in case (topValue body, bottomValue body) of
           (Some tv, Some bv) \<Rightarrow> t'\<lparr>top_value := tv, bottom_value := bv\<rparr>
         | _ \<Rightarrow> t')"

text \<open>The play: the turn, then the tile in the hand of the player whose turn it is, the
  shift for a tile laid at position 0 on the left, the move of the tile to the board
  (with the values of the request when it carries both), the record of the move and
  the switch of the turn.\<close>

definition play_route ::
  "nat option \<Rightarrow> string \<Rightarrow> play_body \<Rightarrow> db \<Rightarrow> response \<times> db" where
  "play_route sessUser gameUuid body d =
     (if \<not> requireAuth sessUser then (Inl AuthenticationRequired, d)
      else case game_by_uuid d gameUuid of
        None \<Rightarrow> (Inl GameNotFound, d)
      | Some game \<Rightarrow>
          if Some (current_turn game) \<noteq> sessUser then (Inl NotYourTurn, d)
          else
            let playerLocation =
                  (if current_turn game = player1_id game then ''player1_hand''
                   else ''player2_hand'')
            in case single (filter (\<lambda>t. titleID t = tileId body \<and> tile_gameID t = gameID game
                                         \<and> location t = playerLocation) (GameTiles d)) of
                 None \<Rightarrow> (Inl TileNotInHand, d)
               | Some tileToPlay \<Rightarrow>
                   let ts1 = (if side body = ''left'' \<and> boardPosition body = 0
                              then shift_board (gameID game) (GameTiles d) else GameTiles d);
                       hit = (\<lambda>t. titleID t = tileId body \<and> tile_gameID t = gameID game);
                       ts2 = map (\<lambda>t. if hit t then updateData body t else t) ts1
                   in case single (filter hit ts2) of
                        None \<Rightarrow> (Inl FailedToPlayTile, d\<lparr>GameTiles := ts2\<rparr>)
                      | Some updatedTile \<Rightarrow>
                          let mv = \<lparr>move_gameID = gameID game, player_id = current_turn game,
                                    move_type = ''play_tile'',
                                    tile_top = Some (top_value updatedTile),
                                    tile_bottom = Some (bottom_value updatedTile),
                                    play_side = Some (side body)\<rparr>;
                              nxt = nextTurnPlayerId game
                          in (Inr (PlayOk updatedTile nxt),
                              d\<lparr>GameTiles := ts2,
                                GameMoves := GameMoves d @ [mv],
                                Games := update_current_turn (gameID game) nxt (Games d)\<rparr>))"

text \<open>The draw: the store answers the query for the boneyard with the rows in the order
  of the table, and \<open>limit(1)\<close> keeps the first of them. The new location of the drawn
  tile is the \<open>playerLocation\<close> of the body of the request.\<close>

definition draw_route ::
  "nat option \<Rightarrow> string \<Rightarrow> string \<Rightarrow> db \<Rightarrow> response \<times> db" where
  "draw_route sessUser gameUuid playerLocation d =
     (if \<not> requireAuth sessUser then (Inl AuthenticationRequired, d)
      else case game_by_uuid d gameUuid of
        None \<Rightarrow> (Inl GameNotFound, d)
      | Some game \<Rightarrow>
          if Some (current_turn game) \<noteq> sessUser then (Inl NotYourTurn, d)
          else if boneyard_count game \<le> 0 then (Inl BoneyardEmpty, d)
          else
            case filter (\<lambda>t. tile_gameID t = gameID game \<and> location t = ''boneyard'')
                   (GameTiles d) of
              [] \<Rightarrow> (Inl NoTilesInBoneyard, d)
            | drawnTile # _ \<Rightarrow>
                let hit = (\<lambda>t. titleID t = titleID drawnTile);
                    ts1 = map (\<lambda>t. if hit t then t\<lparr>location := playerLocation\<rparr> else t)
                            (GameTiles d)
                in case single (filter hit ts1) of
                     None \<Rightarrow> (Inl FailedToDrawTile, d\<lparr>GameTiles := ts1\<rparr>)
                   | Some updatedTile \<Rightarrow>
                       let nxt = nextTurnPlayerId game;
                           gs = map (\<lambda>g. if gameID g = gameID game
                                          then g\<lparr>boneyard_count := boneyard_count game - 1,
                                                 current_turn := nxt\<rparr>
                                          else g) (Games d);
                           mv = \<lparr>move_gameID = gameID game, player_id = current_turn game,
                                 move_type = ''draw_tile'',
                                 tile_top = Some (top_value updatedTile),
                                 tile_bottom = Some (bottom_value updatedTile),
                                 play_side = None\<rparr>
                       in (Inr (DrawOk updatedTile (boneyard_count game - 1)),
                           d\<lparr>GameTiles := ts1, Games := gs,
                             GameMoves := GameMoves d @ [mv]\<rparr>))"

text \<open>The pass and the end of the game. The end route writes the winner that the request
  names.\<close>

definition pass_route :: "nat option \<Rightarrow> string \<Rightarrow> db \<Rightarrow> response \<times> db" where
  "pass_route sessUser gameUuid d =
     (if \<not> requireAuth sessUser then (Inl AuthenticationRequired, d)
      else case game_by_uuid d gameUuid of
        None \<Rightarrow> (Inl GameNotFound, d)
      | Some game \<Rightarrow>
          if Some (current_turn game) \<noteq> sessUser then (Inl NotYourTurn, d)
          else
            let mv = \<lparr>move_gameID = gameID game, player_id = current_turn game,
                      move_type = ''pass'', tile_top = None, tile_bottom = None,
                      play_side = None\<rparr>;
                nxt = nextTurnPlayerId game
            in (Inr (PassOk nxt),
                d\<lparr>GameMoves := GameMoves d @ [mv],
                  Games := update_current_turn (gameID game) nxt (Games d)\<rparr>))"

definition end_route :: "nat option \<Rightarrow> string \<Rightarrow> nat \<Rightarrow> db \<Rightarrow> response \<times> db" where
  "end_route sessUser gameUuid winnerId d =
     (if \<not> requireAuth sessUser then (Inl AuthenticationRequired, d)
      else (Inr EndOk,
            d\<lparr>Games := map (\<lambda>g. if game_uuid g = gameUuid
                                 then g\<lparr>status := ''completed'', winner_id := winnerId\<rparr>
                                 else g) (Games d)\<rparr>))"

section \<open>The challenge handler\<close>

text \<open>
  The handler keeps two maps in memory, \<open>activeChallenges\<close> and \<open>userSocketMap\<close>, and
  writes the new game to the store. A socket is the connection object with the fields
  the handler attaches to it; the id of a socket, a string, is a \<open>nat\<close> in the model.
  The id of a challenge is the string made of the
  challenger's id, the target's id and the clock; the model keeps the three parts.
  \<open>Date.now()\<close> is read twice by \<open>send-challenge\<close>, so both readings are
  parameters. The JS conversions \<open>Number\<close> and \<open>String\<close> of an id, used for the second
  and third look-up of the target, are parameters too: nothing is assumed on the key
  they give.
\<close>

record user_data =
  ud_id :: nat
  username :: string
  displayName :: string

record socket =
  socket_id :: nat
  userId :: "nat option"
  userData :: "user_data option"

type_synonym challenge_id = "nat \<times> nat \<times> nat"

record challenge =
  challengeId :: challenge_id
  challengerId :: nat
  challengerName :: string
  challengerDisplayName :: string
  targetId :: nat
  targetName :: string
  timestamp :: nat

record game_data =
  gameId :: string
  gameDbId :: nat
  player1 :: user_data
  player2 :: user_data

datatype event =
    ChallengeReceived challenge_id user_data
  | ChallengeError string
  | GameStart game_data
  | UserBusy nat string

datatype emit =
    ToSocket nat event      \<comment> \<open>\<open>socket.emit\<close> and \<open>io.to(socketId).emit\<close>\<close>
  | ToAll event             \<comment> \<open>\<open>io.emit\<close>\<close>

record server =
  activeChallenges :: "challenge_id \<rightharpoonup> challenge"
  userSocketMap :: "nat \<rightharpoonup> nat"
  store :: db

definition register_user :: "user_data \<Rightarrow> socket \<Rightarrow> server \<Rightarrow> socket \<times> server" where
  "register_user ud s st =
     (s\<lparr>userId := Some (ud_id ud), userData := Some ud\<rparr>,
      st\<lparr>userSocketMap := (userSocketMap st)(ud_id ud \<mapsto> socket_id s)\<rparr>)"

record send_challenge_payload =
  p_challengerId :: nat
  p_challengerName :: string
  p_challengerDisplayName :: string
  p_targetId :: nat
  p_targetName :: string

definition lookup_target ::
  "(nat \<Rightarrow> nat) \<Rightarrow> (nat \<Rightarrow> nat) \<Rightarrow> (nat \<rightharpoonup> nat) \<Rightarrow> nat \<Rightarrow> nat option" where
  "lookup_target Number_js String_js m tid =
     (case m tid of
        Some sk \<Rightarrow> Some sk
      | None \<Rightarrow> (case m (Number_js tid) of
                   Some sk \<Rightarrow> Some sk
                 | None \<Rightarrow> m (String_js tid)))"

definition send_challenge ::
  "(nat \<Rightarrow> nat) \<Rightarrow> (nat \<Rightarrow> nat) \<Rightarrow> nat \<Rightarrow> nat \<Rightarrow> socket \<Rightarrow> send_challenge_payload
     \<Rightarrow> server \<Rightarrow> emit list \<times> server" where
  "send_challenge Number_js String_js now_id now_ts s p st =
     (let cid = (p_challengerId p, p_targetId p, now_id);
          st1 = st\<lparr>activeChallenges := (activeChallenges st)(cid \<mapsto>
                  \<lparr>challengeId = cid, challengerId = p_challengerId p,
                   challengerName = p_challengerName p,
                   challengerDisplayName = p_challengerDisplayName p,
                   targetId = p_targetId p, targetName = p_targetName p,
                   timestamp = now_ts\<rparr>)\<rparr>
      in case lookup_target Number_js String_js (userSocketMap st1) (p_targetId p) of
           Some targetSocketId \<Rightarrow>
             ([ToSocket targetSocketId
                 (ChallengeReceived cid
                    \<lparr>ud_id = p_challengerId p, username = p_challengerName p,
                     displayName = p_challengerDisplayName p\<rparr>)], st1)
         | None \<Rightarrow>
             ([ToSocket (socket_id s) (ChallengeError ''User is not online'')], st1))"

text \<open>\<open>socket.on('disconnect')\<close> of the challenge handler.\<close>

definition challenge_disconnect :: "socket \<Rightarrow> server \<Rightarrow> server" where
  "challenge_disconnect s st =
     (case userId s of
        None \<Rightarrow> st
      | Some u \<Rightarrow>
          if u = 0 then st
          else st\<lparr>userSocketMap := (userSocketMap st)(u := None),
                  activeChallenges :=
                    (\<lambda>k. case activeChallenges st k of
                            None \<Rightarrow> None
                          | Some c \<Rightarrow> if challengerId c = u \<or> targetId c = u then None
                                      else Some c)\<rparr>)"

subsection \<open>Dealing\<close>

text \<open>\<open>generateAndShuffleDominoes\<close>: the 28 pairs in the order of the two loops, then the
  shuffle, which for \<open>i\<close> from the last index down to 1 swaps the places \<open>i\<close> and \<open>j\<close>,
  where \<open>j = Math.floor(Math.random() * (i + 1))\<close> is some index from 0 to \<open>i\<close>. The
  random source is a parameter: \<open>rnd i\<close> is the number drawn at step \<open>i\<close>, reduced to
  that range.\<close>

definition domino_set :: "(int \<times> int) list" where
  "domino_set = concat (map (\<lambda>i. map (\<lambda>j. (i, j)) [i..6]) [0..6])"

fun shuffle_from :: "(nat \<Rightarrow> nat) \<Rightarrow> nat \<Rightarrow> 'a list \<Rightarrow> 'a list" where
  "shuffle_from rnd 0 xs = xs"
| "shuffle_from rnd (Suc n) xs =
     (let i = Suc n; j = rnd i mod (i + 1)
      in shuffle_from rnd n (xs[i := xs ! j, j := xs ! i]))"

definition generateAndShuffleDominoes :: "(nat \<Rightarrow> nat) \<Rightarrow> (int \<times> int) list" where
  "generateAndShuffleDominoes rnd = shuffle_from rnd (length domino_set - 1) domino_set"

definition tilesToInsert :: "(int \<times> int) list \<Rightarrow> ((int \<times> int) \<times> string \<times> int) list" where
  "tilesToInsert allTiles =
     (let player1Hand = take 7 allTiles;
          player2Hand = take 7 (drop 7 allTiles);
          boneyard = drop 7 (drop 7 allTiles)
      in map (\<lambda>tile. (tile, ''player1_hand'', -1)) player1Hand
       @ map (\<lambda>tile. (tile, ''player2_hand'', -1)) player2Hand
       @ map (\<lambda>tile. (tile, ''boneyard'', -1)) boneyard)"

text \<open>The store numbers the rows it inserts: \<open>next_gameID\<close> and \<open>next_titleID\<close> are its
  two sequences.\<close>

definition insert_game :: "game_row \<Rightarrow> db \<Rightarrow> game_row \<times> db" where
  "insert_game g d =
     (let g' = g\<lparr>gameID := next_gameID d\<rparr>
      in (g', d\<lparr>Games := Games d @ [g'], next_gameID := Suc (next_gameID d)\<rparr>))"

definition tileInserts :: "nat \<Rightarrow> nat \<Rightarrow> ((int \<times> int) \<times> string \<times> int) list \<Rightarrow> tile_row list" where
  "tileInserts gid first rows =
     map (\<lambda>(k, (v, loc, pos)).
            \<lparr>titleID = first + k, tile_gameID = gid, top_value = fst v,
             bottom_value = snd v, location = loc, board_position = pos\<rparr>)
         (enumerate 0 rows)"

definition insert_tiles :: "nat \<Rightarrow> ((int \<times> int) \<times> string \<times> int) list \<Rightarrow> db \<Rightarrow> db" where
  "insert_tiles gid rows d =
     d\<lparr>GameTiles := GameTiles d @ tileInserts gid (next_titleID d) rows,
       next_titleID := next_titleID d + length rows\<rparr>"

text \<open>\<open>socket.userData?.displayName\<close>, and \<open>x || y\<close> on strings: \<open>y\<close> when \<open>x\<close> is
  undefined or the empty string.\<close>

definition socket_displayName :: "socket \<Rightarrow> string option" where
  "socket_displayName s = (case userData s of None \<Rightarrow> None | Some ud \<Rightarrow> Some (displayName ud))"

definition js_or :: "string option \<Rightarrow> string \<Rightarrow> string" where
  "js_or x y = (case x of None \<Rightarrow> y | Some n \<Rightarrow> if n = [] then y else n)"

record accept_env =
  random_js :: "nat \<Rightarrow> nat"    \<comment> \<open>the numbers \<open>Math.random\<close> gives to the shuffle\<close>
  randomUUID :: string          \<comment> \<open>the fresh uuid\<close>
  gameError :: bool             \<comment> \<open>the store refuses the game row\<close>
  tilesError :: bool            \<comment> \<open>the store refuses the tile rows\<close>

definition accept_challenge ::
  "accept_env \<Rightarrow> socket \<Rightarrow> challenge_id \<Rightarrow> server \<Rightarrow> emit list \<times> server" where
  "accept_challenge env s cid st =
     (case activeChallenges st cid of
        None \<Rightarrow> ([ToSocket (socket_id s) (ChallengeError ''Challenge not found or expired'')], st)
      | Some c \<Rightarrow>
          let challengerSocketId = userSocketMap st (challengerId c);
              targetSocketId = userSocketMap st (targetId c);
              allTiles = generateAndShuffleDominoes (random_js env);
              boneyard = drop 7 (drop 7 allTiles)
          in if gameError env
             then ([ToSocket (socket_id s) (ChallengeError ''Failed to create game'')], st)
             else
               let (game, d1) = insert_game
                      \<lparr>gameID = 0, game_uuid = randomUUID env, player1_id = challengerId c,
                       player2_id = targetId c, current_turn = challengerId c,
                       status = ''active'', winner_id = 0,
                       boneyard_count = int (length boneyard)\<rparr> (store st)
               in if tilesError env
                  then ([ToSocket (socket_id s) (ChallengeError ''Failed to create game tiles'')],
                        st\<lparr>store := d1\<rparr>)
                  else
                    let d2 = insert_tiles (gameID game) (tilesToInsert allTiles) d1;
                        gameData =
                          \<lparr>gameId = randomUUID env, gameDbId = gameID game,
                           player1 = \<lparr>ud_id = challengerId c, username = challengerName c,
                                      displayName = challengerDisplayName c\<rparr>,
                           player2 = \<lparr>ud_id = targetId c, username = targetName c,
                                      displayName =
                                        js_or (socket_displayName s) (targetName c)\<rparr>\<rparr>
                    in ((case challengerSocketId of
                           Some k \<Rightarrow> [ToSocket k (GameStart gameData)] | None \<Rightarrow> [])
                        @ (case targetSocketId of
                             Some k \<Rightarrow> [ToSocket k (GameStart gameData)] | None \<Rightarrow> [])
                        @ [ToAll (UserBusy (challengerId c) (challengerName c)),
                           ToAll (UserBusy (targetId c) (targetName c))],
                        st\<lparr>store := d2,
                          activeChallenges := (activeChallenges st)(cid := None)\<rparr>))"

section \<open>The game board of the client\<close>

text \<open>
  The client holds its own view of the game: the player's hand and the chain, as lists of
  tiles \<open>{id, top, bottom}\<close> (the fields are written \<open>tile_id\<close>, \<open>top_pip\<close> and
  \<open>bottom_pip\<close>). The left open end of the chain is the \<open>top\<close> of its first tile,
  the right open end the \<open>bottom\<close> of its last tile.
\<close>

record client_tile =
  tile_id :: nat
  top_pip :: int
  bottom_pip :: int

record client =
  client_gameId :: string
  currentUser :: nat
  game_player1 :: nat
  playerHand :: "client_tile list"
  boardChain :: "client_tile list"
  currentTurn :: nat
  gameStatus :: string
  winnerId :: "nat option"

definition playerNumber :: "client \<Rightarrow> nat" where
  "playerNumber c = (if currentUser c = game_player1 c then 1 else 2)"

definition isMyTurn :: "client \<Rightarrow> bool" where
  "isMyTurn c = (currentTurn c = playerNumber c)"

definition leftEnd :: "client_tile list \<Rightarrow> int" where
  "leftEnd chain = top_pip (hd chain)"

definition rightEnd :: "client_tile list \<Rightarrow> int" where
  "rightEnd chain = bottom_pip (last chain)"

definition canPlayTile :: "client_tile list \<Rightarrow> client_tile \<Rightarrow> bool" where
  "canPlayTile chain tile =
     (if chain = [] then True
      else top_pip tile = leftEnd chain \<or> top_pip tile = rightEnd chain
         \<or> bottom_pip tile = leftEnd chain \<or> bottom_pip tile = rightEnd chain)"

datatype play_msg =
    NotYourTurnMsg              \<comment> \<open>\<open>Not your turn!\<close>\<close>
  | CannotBePlayed              \<comment> \<open>\<open>This tile cannot be played!\<close>\<close>
  | InvalidTile                 \<comment> \<open>\<open>Invalid tile selected!\<close>\<close>
  | DoesNotMatch                \<comment> \<open>\<open>Tile does not match the board!\<close>\<close>

definition flipped :: "client_tile \<Rightarrow> client_tile" where
  "flipped tile = \<lparr>tile_id = tile_id tile, top_pip = bottom_pip tile, bottom_pip = top_pip tile\<rparr>"

text \<open>The placement of \<open>playTile\<close>: the position on the board, the tile as it is laid
  and the new chain. Every side that is not \<open>left\<close> is the right one.\<close>

definition place_tile ::
  "client_tile list \<Rightarrow> client_tile \<Rightarrow> string \<Rightarrow> play_msg + (int \<times> client_tile \<times> client_tile list)" where
  "place_tile chain tile sd =
     (if chain = [] then Inr (0, tile, [tile])
      else if sd = ''left'' then
        (if bottom_pip tile = leftEnd chain then Inr (0, tile, tile # chain)
         else if top_pip tile = leftEnd chain then Inr (0, flipped tile, flipped tile # chain)
         else Inl DoesNotMatch)
      else
        (if top_pip tile = rightEnd chain
         then Inr (int (length chain), tile, chain @ [tile])
         else if bottom_pip tile = rightEnd chain
         then Inr (int (length chain), flipped tile, chain @ [flipped tile])
         else Inl DoesNotMatch))"

datatype client_emit =
    Emit_play_tile client_tile string int
  | Emit_end_game nat

datatype play_outcome =
    Refused play_msg            \<comment> \<open>the client sends nothing\<close>
  | RequestFailed http_error    \<comment> \<open>the request of the play failed\<close>
  | Played
  | Won

text \<open>\<open>endGame\<close>: the request to the end route, then the local state and the
  \<open>end-game\<close> event; a failed request is logged and nothing else happens.\<close>

definition endGame ::
  "nat option \<Rightarrow> nat \<Rightarrow> client \<Rightarrow> db \<Rightarrow> client \<times> client_emit list \<times> db" where
  "endGame sessUser winnerUserId c d =
     (case end_route sessUser (client_gameId c) winnerUserId d of
        (Inl e, d1) \<Rightarrow> (c, [], d1)
      | (Inr r, d1) \<Rightarrow>
          (c\<lparr>gameStatus := ''completed'', winnerId := Some winnerUserId\<rparr>,
           [Emit_end_game winnerUserId], d1))"

definition playTile ::
  "nat option \<Rightarrow> client \<Rightarrow> client_tile \<Rightarrow> string \<Rightarrow> db
     \<Rightarrow> play_outcome \<times> client \<times> client_emit list \<times> db" where
  "playTile sessUser c tile sd d =
     (if \<not> isMyTurn c then (Refused NotYourTurnMsg, c, [], d)
      else if \<not> canPlayTile (boardChain c) tile then (Refused CannotBePlayed, c, [], d)
      else if tile_id tile = 0 then (Refused InvalidTile, c, [], d)
      else case place_tile (boardChain c) tile sd of
        Inl m \<Rightarrow> (Refused m, c, [], d)
      | Inr (pos, newTile, chain') \<Rightarrow>
          let updatedHand = filter (\<lambda>t. tile_id t \<noteq> tile_id tile) (playerHand c);
              c1 = c\<lparr>boardChain := chain', playerHand := updatedHand\<rparr>
          in case play_route sessUser (client_gameId c)
                    \<lparr>tileId = tile_id tile, side = sd, boardPosition = pos,
                     topValue = Some (top_pip newTile),
                     bottomValue = Some (bottom_pip newTile)\<rparr> d of
               (Inl e, d1) \<Rightarrow> (RequestFailed e, c1, [], d1)
             | (Inr r, d1) \<Rightarrow>
                 if updatedHand = []
                 then (case endGame sessUser (currentUser c) c1 d1 of
                         (c2, es, d2) \<Rightarrow> (Won, c2, Emit_play_tile newTile sd pos # es, d2))
                 else (Played, c1, [Emit_play_tile newTile sd pos], d1))"


definition hand_location :: "game_row \<Rightarrow> string" where
  "hand_location game =
     (if current_turn game = player1_id game then ''player1_hand'' else ''player2_hand'')"

definition tile_in_hand :: "db \<Rightarrow> game_row \<Rightarrow> nat \<Rightarrow> bool" where
  "tile_in_hand d game tid =
     (case single (filter (\<lambda>t. titleID t = tid \<and> tile_gameID t = gameID game) (GameTiles d)) of
        None \<Rightarrow> False
      | Some t \<Rightarrow> location t = hand_location game)"

section \<open>The game handler: joining, disconnecting and the forfeit timer\<close>

text \<open>
  \<open>activeGames\<close> maps a game id to the sockets and ids of its two players, in the order
  of insertion; \<open>disconnectTimeouts\<close> maps the key of a game and a player (the string of
  both; the model keeps the pair) to the handle of a timer. The timers that the runtime
  holds are part of the state: \<open>setTimeout\<close> adds one and returns its handle,
  \<open>clearTimeout\<close> removes it, and the runtime fires a timer by running its callback.
  The callback of the forfeit timer waits for the store in its middle (\<open>await\<close>): it runs
  in two parts, \<open>timeout_begin\<close> up to the request to the store and \<open>timeout_finish\<close>
  after its answer, and other handlers may run between the two. The request is applied
  to the store when it is sent.
\<close>

record active_game =
  player1SocketId :: "nat option"
  player2SocketId :: "nat option"
  player1Id :: "nat option"
  player2Id :: "nat option"

datatype game_event = OpponentDisconnected | UserAvailable nat

datatype game_emit =
    ToRoom string game_event      \<comment> \<open>\<open>io.to(gameId).emit\<close>\<close>
  | ToEveryone game_event         \<comment> \<open>\<open>io.emit\<close>\<close>

record game_server =
  activeGames :: "(string \<times> active_game) list"
  disconnectTimeouts :: "(string \<times> nat) \<rightharpoonup> nat"
  timers :: "nat \<rightharpoonup> (string \<times> nat)"
  next_timer :: nat
  games_store :: db

definition clearTimeout :: "nat \<Rightarrow> game_server \<Rightarrow> game_server" where
  "clearTimeout h gs = gs\<lparr>timers := (timers gs)(h := None)\<rparr>"

definition join_game :: "nat \<Rightarrow> string \<Rightarrow> nat \<Rightarrow> game_server \<Rightarrow> game_server" where
  "join_game sock gid playerId gs =
     (let games1 = (if map_of (activeGames gs) gid = None
                    then activeGames gs @ [(gid, \<lparr>player1SocketId = None, player2SocketId = None,
                                                 player1Id = None, player2Id = None\<rparr>)]
                    else activeGames gs);
          timeoutKey = (gid, playerId);
          gs1 = (case disconnectTimeouts gs timeoutKey of
                   None \<Rightarrow> gs
                 | Some h \<Rightarrow> (clearTimeout h gs)
                               \<lparr>disconnectTimeouts := (disconnectTimeouts gs)(timeoutKey := None)\<rparr>);
          upd = (\<lambda>game.
                   if player1Id game = Some playerId then game\<lparr>player1SocketId := Some sock\<rparr>
                   else if player2Id game = Some playerId then game\<lparr>player2SocketId := Some sock\<rparr>
                   else if player1SocketId game = None
                   then game\<lparr>player1SocketId := Some sock, player1Id := Some playerId\<rparr>
                   else if player2SocketId game = None
                   then game\<lparr>player2SocketId := Some sock, player2Id := Some playerId\<rparr>
                   else game)
      in gs1\<lparr>activeGames := map (\<lambda>(k, game). if k = gid then (k, upd game) else (k, game)) games1\<rparr>)"

text \<open>\<open>socket.on('disconnect')\<close> of the game handler: the loop over the games, one entry
  at a time.\<close>

definition disconnect_entry ::
  "nat \<Rightarrow> string \<times> active_game \<Rightarrow> game_server \<Rightarrow> (string \<times> active_game) \<times> game_server" where
  "disconnect_entry sock e gs =
     (let gid = fst e; game = snd e;
          (disconnectedPlayerId, game') =
             (if player1SocketId game = Some sock
              then (player1Id game, game\<lparr>player1SocketId := None\<rparr>)
              else if player2SocketId game = Some sock
              then (player2Id game, game\<lparr>player2SocketId := None\<rparr>)
              else (None, game))
      in case disconnectedPlayerId of
           None \<Rightarrow> ((gid, game'), gs)
         | Some p \<Rightarrow>
             if p = 0 then ((gid, game'), gs)
             else ((gid, game'),
                   gs\<lparr>timers := (timers gs)(next_timer gs \<mapsto> (gid, p)),
                      disconnectTimeouts := (disconnectTimeouts gs)((gid, p) \<mapsto> next_timer gs),
                      next_timer := Suc (next_timer gs)\<rparr>))"

fun disconnect_loop ::
  "nat \<Rightarrow> (string \<times> active_game) list \<Rightarrow> game_server \<Rightarrow> (string \<times> active_game) list \<times> game_server" where
  "disconnect_loop sock [] gs = ([], gs)"
| "disconnect_loop sock (e # es) gs =
     (let (e', gs1) = disconnect_entry sock e gs;
          (es', gs2) = disconnect_loop sock es gs1
      in (e' # es', gs2))"

definition game_disconnect :: "nat \<Rightarrow> game_server \<Rightarrow> game_server" where
  "game_disconnect sock gs =
     (let (games', gs1) = disconnect_loop sock (activeGames gs) gs
      in gs1\<lparr>activeGames := games'\<rparr>)"

text \<open>The first part of the callback ends with the request that completes the game; a
  winner that is undefined is left out of the request.\<close>

record timeout_frame =
  frame_gameId :: string
  frame_playerId :: nat
  frame_player1Id :: "nat option"
  frame_player2Id :: "nat option"

definition forfeit_update :: "string \<Rightarrow> nat option \<Rightarrow> db \<Rightarrow> db" where
  "forfeit_update gid remainingPlayerId d =
     d\<lparr>Games := map (\<lambda>g. if game_uuid g = gid
                           then (case remainingPlayerId of
                                   None \<Rightarrow> g\<lparr>status := ''completed''\<rparr>
                                 | Some w \<Rightarrow> g\<lparr>status := ''completed'', winner_id := w\<rparr>)
                           else g) (Games d)\<rparr>"

definition timeout_begin :: "nat \<Rightarrow> game_server \<Rightarrow> timeout_frame option \<times> game_server" where
  "timeout_begin h gs =
     (case timers gs h of
        None \<Rightarrow> (None, gs)
      | Some (gid, disconnectedPlayerId) \<Rightarrow>
          let gs1 = gs\<lparr>timers := (timers gs)(h := None)\<rparr>
          in case map_of (activeGames gs1) gid of
               None \<Rightarrow> (None, gs1)
             | Some currentGame \<Rightarrow>
                 let remainingPlayerId =
                       (if Some disconnectedPlayerId = player1Id currentGame
                        then player2Id currentGame else player1Id currentGame)
                 in (Some \<lparr>frame_gameId = gid, frame_playerId = disconnectedPlayerId,
                           frame_player1Id = player1Id currentGame,
                           frame_player2Id = player2Id currentGame\<rparr>,
                     gs1\<lparr>games_store := forfeit_update gid remainingPlayerId (games_store gs1)\<rparr>))"

definition user_available :: "nat option \<Rightarrow> game_emit list" where
  "user_available p = (case p of None \<Rightarrow> [] | Some u \<Rightarrow> if u = 0 then [] else [ToEveryone (UserAvailable u)])"

definition timeout_finish :: "timeout_frame \<Rightarrow> game_server \<Rightarrow> game_emit list \<times> game_server" where
  "timeout_finish f gs =
     (ToRoom (frame_gameId f) OpponentDisconnected
        # user_available (frame_player1Id f) @ user_available (frame_player2Id f),
      gs\<lparr>activeGames := filter (\<lambda>(k, game). k \<noteq> frame_gameId f) (activeGames gs),
         disconnectTimeouts := (disconnectTimeouts gs)((frame_gameId f, frame_playerId f) := None)\<rparr>)"

section \<open>Where the tiles are\<close>

text \<open>
  A tile row of a game is in the place its \<open>location\<close> names. The four places of the
  game are the two hands, the board (the chain) and the boneyard (the draw pile).
\<close>

definition four_locations :: "string list" where
  "four_locations = [''player1_hand'', ''player2_hand'', ''board'', ''boneyard'']"

definition tiles_at :: "db \<Rightarrow> nat \<Rightarrow> string \<Rightarrow> tile_row list" where
  "tiles_at d gid loc = filter (\<lambda>t. tile_gameID t = gid \<and> location t = loc) (GameTiles d)"

definition tile_count :: "db \<Rightarrow> nat \<Rightarrow> nat" where
  "tile_count d gid =
     length (tiles_at d gid ''player1_hand'') + length (tiles_at d gid ''player2_hand'')
   + length (tiles_at d gid ''board'') + length (tiles_at d gid ''boneyard'')"

definition partition_rows :: "tile_row list \<Rightarrow> nat \<Rightarrow> bool" where
  "partition_rows ts gid \<longleftrightarrow>
     length (filter (\<lambda>t. tile_gameID t = gid) ts) = 28
   \<and> list_all (\<lambda>t. tile_gameID t = gid \<longrightarrow> location t \<in> set four_locations) ts"

definition tile_partition :: "db \<Rightarrow> nat \<Rightarrow> bool" where
  "tile_partition d gid = partition_rows (GameTiles d) gid"

text \<open>The row of \<open>Games\<close> that \<open>accept-challenge\<close> inserts, with the id the store gives
  it.\<close>

definition new_game :: "accept_env \<Rightarrow> challenge \<Rightarrow> db \<Rightarrow> game_row" where
  "new_game env c d =
     \<lparr>gameID = next_gameID d, game_uuid = randomUUID env, player1_id = challengerId c,
      player2_id = targetId c, current_turn = challengerId c, status = ''active'',
      winner_id = 0, boneyard_count = 14\<rparr>"

section \<open>A game between two users\<close>

text \<open>
  The states the closed theorems below are evaluated at: user 1 (on socket 10) and
  user 2 (on socket 20) register; user 1 challenges user 2, who accepts; the shuffle
  draws \<open>j = i\<close> at every step, so the tiles are dealt in the order of the set.
\<close>

definition alice :: user_data where
  "alice = \<lparr>ud_id = 1, username = ''alice'', displayName = ''Alice''\<rparr>"

definition bob :: user_data where
  "bob = \<lparr>ud_id = 2, username = ''bob'', displayName = ''Bob''\<rparr>"

definition carol :: user_data where
  "carol = \<lparr>ud_id = 3, username = ''carol'', displayName = ''Carol''\<rparr>"

definition fresh_socket :: "nat \<Rightarrow> socket" where
  "fresh_socket k = \<lparr>socket_id = k, userId = None, userData = None\<rparr>"

definition empty_db :: db where
  "empty_db = \<lparr>Games = [], GameTiles = [], GameMoves = [], next_gameID = 1, next_titleID = 1\<rparr>"

definition nobody :: server where
  "nobody = \<lparr>activeChallenges = Map.empty, userSocketMap = Map.empty, store = empty_db\<rparr>"

definition socketA :: socket where
  "socketA = fst (register_user alice (fresh_socket 10) nobody)"

definition alone :: server where
  "alone = snd (register_user alice (fresh_socket 10) nobody)"

definition socketB :: socket where
  "socketB = fst (register_user bob (fresh_socket 20) alone)"

definition lobby :: server where
  "lobby = snd (register_user bob (fresh_socket 20) alone)"

definition socketC :: socket where
  "socketC = fst (register_user carol (fresh_socket 30) lobby)"

definition offer :: send_challenge_payload where
  "offer = \<lparr>p_challengerId = 1, p_challengerName = ''alice'',
            p_challengerDisplayName = ''Alice'', p_targetId = 2, p_targetName = ''bob''\<rparr>"

definition offered :: server where
  "offered = snd (send_challenge id id 1000 1000 socketA offer lobby)"

definition env0 :: accept_env where
  "env0 = \<lparr>random_js = id, randomUUID = ''g1'', gameError = False, tilesError = False\<rparr>"

definition dealt_db :: db where
  "dealt_db = store (snd (accept_challenge env0 socketB (1, 2, 1000) offered))"

definition game1 :: game_row where
  "game1 = \<lparr>gameID = 1, game_uuid = ''g1'', player1_id = 1, player2_id = 2,
            current_turn = 1, status = ''active'', winner_id = 0, boneyard_count = 14\<rparr>"

text \<open>User 1 opens with the tile \<open>[0|1]\<close> (row 2); then it is the turn of user 2, whose
  client shows the chain \<open>[0|1]\<close>. Row 8 is \<open>[1|1]\<close>, row 14 is \<open>[2|2]\<close>.\<close>

definition first_move :: play_body where
  "first_move = \<lparr>tileId = 2, side = ''right'', boardPosition = 0,
              topValue = Some 0, bottomValue = Some 1\<rparr>"

definition opened_db :: db where
  "opened_db = snd (play_route (Some 1) ''g1'' first_move dealt_db)"

definition double_two :: play_body where
  "double_two = \<lparr>tileId = 14, side = ''right'', boardPosition = 1,
                 topValue = Some 2, bottomValue = Some 2\<rparr>"


text \<open>Six rounds in which user 1 lays the rows 1 to 6 on the right and user 2 passes:
  user 1 is left with the row 7, the tile \<open>[0|6]\<close>.\<close>

definition lay :: "nat \<Rightarrow> play_body" where
  "lay k = \<lparr>tileId = k, side = ''right'', boardPosition = int k - 1,
            topValue = None, bottomValue = None\<rparr>"

definition one_round :: "db \<Rightarrow> nat \<Rightarrow> db" where
  "one_round d k = snd (pass_route (Some 2) ''g1'' (snd (play_route (Some 1) ''g1'' (lay k) d)))"

definition last_tile_db :: db where
  "last_tile_db = foldl one_round dealt_db [1, 2, 3, 4, 5, 6]"

definition client1 :: client where
  "client1 = \<lparr>client_gameId = ''g1'', currentUser = 1, game_player1 = 1,
              playerHand = [\<lparr>tile_id = 7, top_pip = 0, bottom_pip = 6\<rparr>],
              boardChain = [\<lparr>tile_id = 1, top_pip = 0, bottom_pip = 0\<rparr>,
                            \<lparr>tile_id = 2, top_pip = 0, bottom_pip = 1\<rparr>,
                            \<lparr>tile_id = 3, top_pip = 0, bottom_pip = 2\<rparr>,
                            \<lparr>tile_id = 4, top_pip = 0, bottom_pip = 3\<rparr>,
                            \<lparr>tile_id = 5, top_pip = 0, bottom_pip = 4\<rparr>,
                            \<lparr>tile_id = 6, top_pip = 0, bottom_pip = 5\<rparr>],
              currentTurn = 1, gameStatus = ''active'', winnerId = None\<rparr>"

text \<open>The last tile of user 1 fits the left end of the chain when it is turned.\<close>

definition last_move :: play_body where
  "last_move = \<lparr>tileId = 7, side = ''left'', boardPosition = 0,
                topValue = Some 6, bottomValue = Some 0\<rparr>"

text \<open>User 1 registers again on a second socket, 11, while the socket 10 is still
  open.\<close>

definition reconnected :: server where
  "reconnected = snd (register_user alice (fresh_socket 11) alone)"

text \<open>Both players have joined the room of the game; then both connections drop.\<close>

definition playing :: game_server where
  "playing = join_game 20 ''g1'' 2 (join_game 10 ''g1'' 1
     \<lparr>activeGames = [], disconnectTimeouts = Map.empty, timers = Map.empty, next_timer = 1,
      games_store = dealt_db\<rparr>)"

definition both_dropped :: game_server where
  "both_dropped = game_disconnect 20 (game_disconnect 10 playing)"

text \<open>The timer of user 1 fires and its callback waits for the store; the timer of user 2
  fires before the store has answered.\<close>

definition first_fired :: game_server where
  "first_fired = snd (timeout_begin 1 both_dropped)"

definition second_fired :: game_server where
  "second_fired = snd (timeout_begin 2 first_fired)"

section \<open>Facts about the store\<close>

lemma single_Some_iff: "single xs = Some x \<longleftrightarrow> xs = [x]"
  by (cases xs rule: single.cases) auto

lemma single_None_iff: "single xs = None \<longleftrightarrow> length xs \<noteq> 1"
  by (cases xs rule: single.cases) auto

lemma single_filter_map:
  assumes "single (filter P xs) = Some x" and "\<And>y. P (f y) = P y"
  shows "single (filter P (map f xs)) = Some (f x)"
proof -
  have "filter P (map f xs) = map f (filter P xs)"
    using assms(2) by (induction xs) auto
  then show ?thesis using assms(1) by (simp add: single_Some_iff)
qed

lemma game_by_uuid_uuid:
  assumes "game_by_uuid d uuid = Some game"
  shows "game_uuid game = uuid"
proof -
  from assms have "filter (\<lambda>g. game_uuid g = uuid) (Games d) = [game]"
    by (simp add: game_by_uuid_def single_Some_iff)
  then have "game \<in> set (filter (\<lambda>g. game_uuid g = uuid) (Games d))" by simp
  then show ?thesis by simp
qed

lemma game_by_uuid_cong: "Games d' = Games d \<Longrightarrow> game_by_uuid d' uuid = game_by_uuid d uuid"
  by (simp add: game_by_uuid_def)

lemma game_by_uuid_turn:
  assumes "game_by_uuid d uuid = Some game"
  shows "game_by_uuid (d\<lparr>Games := update_current_turn (gameID game) n (Games d)\<rparr>) uuid
       = Some (game\<lparr>current_turn := n\<rparr>)"
  using single_filter_map[of "\<lambda>g. game_uuid g = uuid" "Games d" game
          "\<lambda>g. if gameID g = gameID game then g\<lparr>current_turn := n\<rparr> else g"] assms
  by (simp add: game_by_uuid_def update_current_turn_def)

lemma game_by_uuid_end:
  assumes "game_by_uuid d uuid = Some game"
  shows "game_by_uuid (d\<lparr>Games := map (\<lambda>g. if game_uuid g = uuid
                                 then g\<lparr>status := ''completed'', winner_id := w\<rparr>
                                 else g) (Games d)\<rparr>) uuid
       = Some (game\<lparr>status := ''completed'', winner_id := w\<rparr>)"
  using single_filter_map[of "\<lambda>g. game_uuid g = uuid" "Games d" game
          "\<lambda>g. if game_uuid g = uuid then g\<lparr>status := ''completed'', winner_id := w\<rparr> else g"]
        assms game_by_uuid_uuid[OF assms]
  by (simp add: game_by_uuid_def)

text \<open>The shift of the board changes positions only.\<close>

lemma shift_one_keys:
  "map titleID (shift_one e ts) = map titleID ts"
  "map tile_gameID (shift_one e ts) = map tile_gameID ts"
  by (simp_all add: shift_one_def)

lemma foldl_shift_keys:
  "map titleID (foldl (\<lambda>acc e. shift_one e acc) ts es) = map titleID ts
   \<and> map tile_gameID (foldl (\<lambda>acc e. shift_one e acc) ts es) = map tile_gameID ts"
  by (induction es arbitrary: ts) (simp_all add: shift_one_keys)

lemma shift_board_keys:
  "map titleID (shift_board gid ts) = map titleID ts"
  "map tile_gameID (shift_board gid ts) = map tile_gameID ts"
  by (simp_all add: shift_board_def foldl_shift_keys)

lemma length_filter_keys:
  assumes "map titleID ts' = map titleID ts" and "map tile_gameID ts' = map tile_gameID ts"
  shows "length (filter (\<lambda>t. titleID t = k \<and> tile_gameID t = g) ts')
       = length (filter (\<lambda>t. titleID t = k \<and> tile_gameID t = g) ts)"
proof -
  from assms(1) have "length ts' = length ts" by (rule map_eq_imp_length_eq)
  then show ?thesis using assms
    by (induction ts' ts rule: list_induct2) auto
qed

lemma updateData_keys [simp]:
  "titleID (updateData body t) = titleID t"
  "tile_gameID (updateData body t) = tile_gameID t"
  "location (updateData body t) = ''board''"
  by (simp_all add: updateData_def Let_def split: option.splits prod.splits)

section \<open>Turn ownership\<close>

text \<open>
  Claim C4. A play, a draw or a pass that the session of another user than the game's
  \<open>current_turn\<close> sends is answered with 403 \<open>Not your turn\<close>, and the store is left as
  it was: the tiles, the turn, the status and the winner are unchanged.
\<close>

theorem not_your_turn_is_no_op:
  assumes "requireAuth u" and "game_by_uuid d uuid = Some game"
    and "Some (current_turn game) \<noteq> u"
  shows "play_route u uuid body d = (Inl NotYourTurn, d)
       \<and> draw_route u uuid loc d = (Inl NotYourTurn, d)
       \<and> pass_route u uuid d = (Inl NotYourTurn, d)"
  using assms by (simp add: play_route_def draw_route_def pass_route_def)

text \<open>In the dealt game it is the turn of user 1; the three requests of user 2 are
  refused.\<close>

theorem not_your_turn_is_no_op_witness:
  "requireAuth (Some 2) \<and> game_by_uuid dealt_db ''g1'' = Some game1
   \<and> Some (current_turn game1) \<noteq> Some 2
   \<and> play_route (Some 2) ''g1'' double_two dealt_db = (Inl NotYourTurn, dealt_db)
   \<and> draw_route (Some 2) ''g1'' ''player2_hand'' dealt_db = (Inl NotYourTurn, dealt_db)
   \<and> pass_route (Some 2) ''g1'' dealt_db = (Inl NotYourTurn, dealt_db)"
proof -
  have h1: "requireAuth (Some 2)" by code_simp
  have h2: "game_by_uuid dealt_db ''g1'' = Some game1" by code_simp
  have h3: "Some (current_turn game1) \<noteq> Some 2" by code_simp
  show ?thesis
    using h1 h2 h3 not_your_turn_is_no_op[OF h1 h2 h3, where body = double_two
      and loc = "''player2_hand''"]
    by simp
qed

section \<open>Passing\<close>

text \<open>
  Claim C6, as the spec states it, fails: the pass route never looks at the boneyard.
  In the dealt game the boneyard holds 14 tiles, and the pass of user 1 is accepted and
  gives the turn to user 2.
\<close>

theorem pass_with_full_boneyard_accepted:
  "length (tiles_at dealt_db 1 ''boneyard'') = 14
   \<and> map boneyard_count (Games dealt_db) = [14]
   \<and> map current_turn (Games dealt_db) = [1]
   \<and> fst (pass_route (Some 1) ''g1'' dealt_db) = Inr (PassOk 2)
   \<and> map current_turn (Games (snd (pass_route (Some 1) ''g1'' dealt_db))) = [2]"
  by code_simp

text \<open>
  Claim C6, amended. Every pass of the player whose turn it is succeeds, whatever the
  boneyard holds, and gives the turn to the other player (player 2 after player 1,
  player 1 otherwise); the tiles stay where they are. No request is answered with
  \<open>MustDrawFirst\<close>.
\<close>

theorem pass_always_gives_the_turn:
  assumes auth: "requireAuth u" and g: "game_by_uuid d uuid = Some game"
    and turn: "Some (current_turn game) = u"
  shows "fst (pass_route u uuid d) = Inr (PassOk (nextTurnPlayerId game))
       \<and> game_by_uuid (snd (pass_route u uuid d)) uuid
         = Some (game\<lparr>current_turn :=
              (if current_turn game = player1_id game then player2_id game
               else player1_id game)\<rparr>)
       \<and> GameTiles (snd (pass_route u uuid d)) = GameTiles d"
  using assms game_by_uuid_turn[OF g, of "nextTurnPlayerId game"]
  by (simp add: pass_route_def Let_def game_by_uuid_def nextTurnPlayerId_def)

text \<open>After the first move it is the turn of user 2, who passes although the boneyard
  is full.\<close>

theorem pass_always_gives_the_turn_witness:
  "requireAuth (Some 2)
   \<and> game_by_uuid opened_db ''g1'' = Some (game1\<lparr>current_turn := 2\<rparr>)
   \<and> Some (current_turn (game1\<lparr>current_turn := 2\<rparr>)) = Some 2
   \<and> fst (pass_route (Some 2) ''g1'' opened_db) = Inr (PassOk 1)
   \<and> game_by_uuid (snd (pass_route (Some 2) ''g1'' opened_db)) ''g1'' = Some game1
   \<and> GameTiles (snd (pass_route (Some 2) ''g1'' opened_db)) = GameTiles opened_db"
proof -
  have h1: "requireAuth (Some 2)" by code_simp
  have h2: "game_by_uuid opened_db ''g1'' = Some (game1\<lparr>current_turn := 2\<rparr>)" by code_simp
  have h3: "Some (current_turn (game1\<lparr>current_turn := 2\<rparr>)) = Some 2" by simp
  show ?thesis
    using h1 h2 pass_always_gives_the_turn[OF h1 h2 h3]
    by (simp add: game1_def nextTurnPlayerId_def)
qed

section \<open>Placement\<close>

text \<open>The play route accepts every tile of the hand of the player whose turn it is: it
  compares nothing with the ends of the chain.\<close>

lemma play_route_accepts:
  assumes auth: "requireAuth u" and g: "game_by_uuid d uuid = Some game"
    and turn: "Some (current_turn game) = u"
    and hand: "tile_in_hand d game (tileId body)"
  shows "\<exists>t. fst (play_route u uuid body d) = Inr (PlayOk t (nextTurnPlayerId game))"
proof -
  let ?hit = "\<lambda>t. titleID t = tileId body \<and> tile_gameID t = gameID game"
  let ?loc = "if current_turn game = player1_id game then ''player1_hand'' else ''player2_hand''"
  from hand obtain t where t: "filter ?hit (GameTiles d) = [t]"
    and lt: "location t = hand_location game"
    by (auto simp: tile_in_hand_def single_Some_iff split: option.splits)
  have "filter (\<lambda>t. ?hit t \<and> location t = ?loc) (GameTiles d)
      = filter (\<lambda>t. location t = ?loc) (filter ?hit (GameTiles d))"
    by (simp add: conj_commute)
  with t lt have chk: "single (filter (\<lambda>t. titleID t = tileId body \<and> tile_gameID t = gameID game
            \<and> location t = ?loc) (GameTiles d)) = Some t"
    by (simp add: hand_location_def conj_assoc)
  define ts1 where "ts1 = (if side body = ''left'' \<and> boardPosition body = 0
                              then shift_board (gameID game) (GameTiles d) else GameTiles d)"
  define ts2 where "ts2 = map (\<lambda>t. if ?hit t then updateData body t else t) ts1"
  have k1: "map titleID ts1 = map titleID (GameTiles d)"
    "map tile_gameID ts1 = map tile_gameID (GameTiles d)"
    by (simp_all add: ts1_def shift_board_keys)
  have k2: "map titleID ts2 = map titleID ts1" "map tile_gameID ts2 = map tile_gameID ts1"
    by (simp_all add: ts2_def)
  have "length (filter ?hit ts2) = length (filter ?hit (GameTiles d))"
    using length_filter_keys[OF k2] length_filter_keys[OF k1] by simp
  with t have "length (filter ?hit ts2) = 1" by simp
  then obtain x where x: "single (filter ?hit ts2) = Some x"
    using single_None_iff[of "filter ?hit ts2"] by (cases "single (filter ?hit ts2)") auto
  show ?thesis
    using auth g turn chk x
    by (auto simp: play_route_def Let_def ts1_def ts2_def)
qed

lemma play_route_Games:
  assumes "game_by_uuid d uuid = Some game" and "play_route u uuid body d = (Inr r, d1)"
  shows "Games d1 = update_current_turn (gameID game) (nextTurnPlayerId game) (Games d)"
  using assms
  by (auto simp: play_route_def Let_def split: if_splits option.splits)

lemma play_route_only_switches_turn:
  assumes auth: "requireAuth u" and g: "game_by_uuid d uuid = Some game"
    and turn: "Some (current_turn game) = u"
    and hand: "tile_in_hand d game (tileId body)"
  shows "game_by_uuid (snd (play_route u uuid body d)) uuid
       = Some (game\<lparr>current_turn := nextTurnPlayerId game\<rparr>)"
proof -
  from play_route_accepts[OF assms]
  obtain t where "fst (play_route u uuid body d) = Inr (PlayOk t (nextTurnPlayerId game))"
    by auto
  then obtain d1 where
    pr: "play_route u uuid body d = (Inr (PlayOk t (nextTurnPlayerId game)), d1)"
    by (cases "play_route u uuid body d") auto
  have G1: "Games d1 = update_current_turn (gameID game) (nextTurnPlayerId game) (Games d)"
    using g pr by (rule play_route_Games)
  have "game_by_uuid d1 uuid
      = game_by_uuid (d\<lparr>Games := update_current_turn (gameID game) (nextTurnPlayerId game)
                                   (Games d)\<rparr>) uuid"
    by (rule game_by_uuid_cong) (simp add: G1)
  then show ?thesis
    by (simp add: pr game_by_uuid_turn[OF g])
qed



lemma place_tile_canPlay: "place_tile chain tile sd = Inr r \<Longrightarrow> canPlayTile chain tile"
  by (auto simp: place_tile_def canPlayTile_def split: if_splits)








section \<open>The win\<close>

text \<open>
  Claim C2, as the spec states it, fails: the play route, which moves the last tile of
  the hand to the board, checks no win. User 1 holds one tile (row 7); the play of
  that tile is accepted, the hand of user 1 is then empty, and the game is still
  \<open>active\<close> with no winner, the turn having gone to user 2.
\<close>

theorem last_tile_leaves_game_active:
  "map titleID (tiles_at last_tile_db 1 ''player1_hand'') = [7]
   \<and> Games last_tile_db = [game1]
   \<and> fst (play_route (Some 1) ''g1'' last_move last_tile_db)
     = Inr (PlayOk \<lparr>titleID = 7, tile_gameID = 1, top_value = 6, bottom_value = 0,
                    location = ''board'', board_position = 0\<rparr> 2)
   \<and> tiles_at (snd (play_route (Some 1) ''g1'' last_move last_tile_db)) 1 ''player1_hand'' = []
   \<and> Games (snd (play_route (Some 1) ''g1'' last_move last_tile_db))
     = [\<lparr>gameID = 1, game_uuid = ''g1'', player1_id = 1, player2_id = 2,
         current_turn = 2, status = ''active'', winner_id = 0, boneyard_count = 14\<rparr>]"
  by code_simp

text \<open>
  Claim C2, amended. The win is found by the client of the player, after the play. The
  play route, for every request that names the tile, switches the turn and changes
  nothing else of the game: status and winner are as before. When \<open>playTile\<close> has laid
  the last tile of the hand and the play route has accepted it, the client sends the
  request that ends the game, and the game is then \<open>completed\<close> with the acting player
  as winner. The turn has been switched all the same: the win does not take precedence
  over the switch.
\<close>

theorem winning_play_completes_game:
  assumes auth: "requireAuth u" and g: "game_by_uuid d (client_gameId c) = Some game"
    and turn: "Some (current_turn game) = u"
    and me: "currentUser c = current_turn game"
    and hand: "tile_in_hand d game (tile_id tile)"
    and my: "isMyTurn c" and tid: "tile_id tile \<noteq> 0"
    and legal: "place_tile (boardChain c) tile sd = Inr r"
    and last_tile: "filter (\<lambda>t. tile_id t \<noteq> tile_id tile) (playerHand c) = []"
  shows "fst (playTile u c tile sd d) = Won
       \<and> game_by_uuid (snd (snd (snd (playTile u c tile sd d)))) (client_gameId c)
         = Some (game\<lparr>current_turn := nextTurnPlayerId game, status := ''completed'',
                       winner_id := current_turn game\<rparr>)
       \<and> (\<forall>body. tileId body = tile_id tile
            \<longrightarrow> game_by_uuid (snd (play_route u (client_gameId c) body d)) (client_gameId c)
                = Some (game\<lparr>current_turn := nextTurnPlayerId game\<rparr>))"
proof -
  obtain pos nt chain' where r: "r = (pos, nt, chain')" by (cases r) auto
  have can: "canPlayTile (boardChain c) tile" using legal by (rule place_tile_canPlay)
  let ?body = "\<lparr>tileId = tile_id tile, side = sd, boardPosition = pos,
                 topValue = Some (top_pip nt), bottomValue = Some (bottom_pip nt)\<rparr>"
  let ?uuid = "client_gameId c"
  from play_route_accepts[OF auth g turn, of ?body] hand
  obtain t where "fst (play_route u ?uuid ?body d) = Inr (PlayOk t (nextTurnPlayerId game))"
    by auto
  then obtain d1 where
    pr: "play_route u ?uuid ?body d = (Inr (PlayOk t (nextTurnPlayerId game)), d1)"
    by (cases "play_route u ?uuid ?body d") auto
  have G1: "Games d1 = update_current_turn (gameID game) (nextTurnPlayerId game) (Games d)"
    using g pr by (rule play_route_Games)
  have "game_by_uuid d1 ?uuid
      = game_by_uuid (d\<lparr>Games := update_current_turn (gameID game) (nextTurnPlayerId game)
                                   (Games d)\<rparr>) ?uuid"
    by (rule game_by_uuid_cong) (simp add: G1)
  then have g1: "game_by_uuid d1 ?uuid = Some (game\<lparr>current_turn := nextTurnPlayerId game\<rparr>)"
    by (simp add: game_by_uuid_turn[OF g])
  have fin: "playTile u c tile sd d =
      (Won, c\<lparr>boardChain := chain', playerHand := [], gameStatus := ''completed'',
               winnerId := Some (currentUser c)\<rparr>,
       [Emit_play_tile nt sd pos, Emit_end_game (currentUser c)],
       d1\<lparr>Games := map (\<lambda>g. if game_uuid g = ?uuid
                                 then g\<lparr>status := ''completed'', winner_id := currentUser c\<rparr>
                                 else g) (Games d1)\<rparr>)"
    using legal r my tid can pr last_tile auth
    by (simp add: playTile_def Let_def endGame_def end_route_def)
  have alone: "game_by_uuid (snd (play_route u ?uuid body d)) ?uuid
                = Some (game\<lparr>current_turn := nextTurnPlayerId game\<rparr>)"
    if "tileId body = tile_id tile" for body
    using play_route_only_switches_turn[OF auth g turn, of body] hand that by simp
  show ?thesis
    using alone by (simp add: fin game_by_uuid_end[OF g1] me)
qed

text \<open>User 1 lays the last tile, \<open>[0|6]\<close> turned to \<open>[6|0]\<close>, on the left of the chain:
  the game is completed with user 1 as winner, and the turn is with user 2.\<close>

theorem winning_play_completes_game_witness:
  "requireAuth (Some 1)
   \<and> game_by_uuid last_tile_db (client_gameId client1) = Some game1
   \<and> Some (current_turn game1) = Some 1
   \<and> currentUser client1 = current_turn game1
   \<and> tile_in_hand last_tile_db game1 (tile_id \<lparr>tile_id = 7, top_pip = 0, bottom_pip = 6\<rparr>)
   \<and> isMyTurn client1
   \<and> tile_id \<lparr>tile_id = 7, top_pip = 0, bottom_pip = 6\<rparr> \<noteq> 0
   \<and> place_tile (boardChain client1) \<lparr>tile_id = 7, top_pip = 0, bottom_pip = 6\<rparr> ''left''
       = Inr (0, \<lparr>tile_id = 7, top_pip = 6, bottom_pip = 0\<rparr>,
              \<lparr>tile_id = 7, top_pip = 6, bottom_pip = 0\<rparr> # boardChain client1)
   \<and> fst (playTile (Some 1) client1 \<lparr>tile_id = 7, top_pip = 0, bottom_pip = 6\<rparr>
            ''left'' last_tile_db) = Won
   \<and> game_by_uuid (snd (snd (snd (playTile (Some 1) client1
          \<lparr>tile_id = 7, top_pip = 0, bottom_pip = 6\<rparr> ''left'' last_tile_db)))) ''g1''
     = Some \<lparr>gameID = 1, game_uuid = ''g1'', player1_id = 1, player2_id = 2,
             current_turn = 2, status = ''completed'', winner_id = 1, boneyard_count = 14\<rparr>"
proof -
  let ?t = "\<lparr>tile_id = 7, top_pip = 0, bottom_pip = 6\<rparr>"
  have h1: "requireAuth (Some 1)" by code_simp
  have h2: "game_by_uuid last_tile_db (client_gameId client1) = Some game1" by code_simp
  have h3: "Some (current_turn game1) = Some 1" by code_simp
  have h4: "currentUser client1 = current_turn game1" by code_simp
  have h5: "tile_in_hand last_tile_db game1 (tile_id ?t)" by code_simp
  have h6: "isMyTurn client1" by code_simp
  have h7: "tile_id ?t \<noteq> 0" by simp
  have h8: "place_tile (boardChain client1) ?t ''left''
       = Inr (0, \<lparr>tile_id = 7, top_pip = 6, bottom_pip = 0\<rparr>,
              \<lparr>tile_id = 7, top_pip = 6, bottom_pip = 0\<rparr> # boardChain client1)"
    by code_simp
  have h9: "filter (\<lambda>t. tile_id t \<noteq> tile_id ?t) (playerHand client1) = []" by code_simp
  have u: "client_gameId client1 = ''g1''" by code_simp
  from winning_play_completes_game[OF h1 h2 h3 h4 h5 h6 h7 h8 h9]
  have "fst (playTile (Some 1) client1 ?t ''left'' last_tile_db) = Won
      \<and> game_by_uuid (snd (snd (snd (playTile (Some 1) client1 ?t ''left'' last_tile_db)))) ''g1''
        = Some \<lparr>gameID = 1, game_uuid = ''g1'', player1_id = 1, player2_id = 2,
             current_turn = 2, status = ''completed'', winner_id = 1, boneyard_count = 14\<rparr>"
    by (simp add: u game1_def nextTurnPlayerId_def)
  with h1 h2 h3 h4 h5 h6 h7 h8 show ?thesis by blast
qed

section \<open>Dealing\<close>

lemma length_domino_set: "length domino_set = 28"
  by code_simp

lemma length_shuffle_from: "length (shuffle_from r n xs) = length xs"
  by (induction n arbitrary: xs) (simp_all add: Let_def)


lemma length_generate: "length (generateAndShuffleDominoes r) = 28"
  by (simp add: generateAndShuffleDominoes_def length_shuffle_from length_domino_set)


lemma tileInserts_location_aux:
  "map location (map (\<lambda>(k, (v, loc, pos)).
            \<lparr>titleID = first + k, tile_gameID = gid, top_value = fst v,
             bottom_value = snd v, location = loc, board_position = pos\<rparr>)
         (enumerate n rows)) = map (\<lambda>x. fst (snd x)) rows"
  by (induction rows arbitrary: n) auto


lemma tileInserts_gameID_aux:
  "map tile_gameID (map (\<lambda>(k, (v, loc, pos)).
            \<lparr>titleID = first + k, tile_gameID = gid, top_value = fst v,
             bottom_value = snd v, location = loc, board_position = pos\<rparr>)
         (enumerate n rows)) = replicate (length rows) gid"
  by (induction rows arbitrary: n) auto

lemma tileInserts_location:
  "map location (tileInserts gid first rows) = map (\<lambda>x. fst (snd x)) rows"
  unfolding tileInserts_def by (rule tileInserts_location_aux)


lemma tileInserts_gameID:
  "map tile_gameID (tileInserts gid first rows) = replicate (length rows) gid"
  unfolding tileInserts_def by (rule tileInserts_gameID_aux)


lemma tilesToInsert_locations:
  assumes "length allTiles = 28"
  shows "map (\<lambda>x. fst (snd x)) (tilesToInsert allTiles)
       = replicate 7 ''player1_hand'' @ replicate 7 ''player2_hand'' @ replicate 14 ''boneyard''"
  using assms by (simp add: tilesToInsert_def Let_def map_replicate_const comp_def)

lemma tilesToInsert_values: "map fst (tilesToInsert allTiles) = allTiles"
proof -
  have "map fst (tilesToInsert allTiles)
      = take 7 allTiles @ take 7 (drop 7 allTiles) @ drop 7 (drop 7 allTiles)"
    by (simp add: tilesToInsert_def Let_def comp_def)
  then show ?thesis by (simp only: append_take_drop_id)
qed

lemma length_tilesToInsert: "length (tilesToInsert allTiles) = length allTiles"
  using arg_cong[OF tilesToInsert_values[of allTiles], of length] by simp



text \<open>The state after an accepted challenge, when the store takes both inserts.\<close>

lemma accept_success:
  assumes "activeChallenges st cid = Some c" "\<not> gameError env" "\<not> tilesError env"
  shows "snd (accept_challenge env s cid st)
       = st\<lparr>store := (store st)\<lparr>Games := Games (store st) @ [new_game env c (store st)],
                  next_gameID := Suc (next_gameID (store st)),
                  GameTiles := GameTiles (store st)
                     @ tileInserts (next_gameID (store st)) (next_titleID (store st))
                         (tilesToInsert (generateAndShuffleDominoes (random_js env))),
                  next_titleID := next_titleID (store st) + 28\<rparr>,
              activeChallenges := (activeChallenges st)(cid := None)\<rparr>"
  using assms
  by (simp add: accept_challenge_def Let_def insert_game_def insert_tiles_def new_game_def
        length_generate length_tilesToInsert)



text \<open>
  Claim C10. The handler of \<open>accept-challenge\<close> never reads the user of the socket that
  sends the event. For a stored challenge (and a store that takes the rows) the event
  succeeds from every socket: the state after it is the same whichever socket sent it,
  the new game is between the challenger and the target of the challenge, and the
  challenge is consumed. The events sent are the same too for two sockets that agree on
  the display name the handler puts into \<open>game-start\<close> for player 2, whatever their
  socket ids and registered user ids are.
\<close>

theorem accept_ignores_the_acceptor:
  assumes "activeChallenges st cid = Some c" "\<not> gameError env" "\<not> tilesError env"
  shows "snd (accept_challenge env s' cid st) = snd (accept_challenge env s cid st)
       \<and> Games (store (snd (accept_challenge env s cid st)))
           = Games (store st) @ [new_game env c (store st)]
       \<and> player1_id (new_game env c (store st)) = challengerId c
       \<and> player2_id (new_game env c (store st)) = targetId c
       \<and> activeChallenges (snd (accept_challenge env s cid st)) cid = None
       \<and> (socket_displayName s' = socket_displayName s
            \<longrightarrow> accept_challenge env s' cid st = accept_challenge env s cid st)"
proof -
  have a: "snd (accept_challenge env s' cid st) = snd (accept_challenge env s cid st)"
    by (simp add: accept_success[OF assms])
  have b: "Games (store (snd (accept_challenge env s cid st)))
           = Games (store st) @ [new_game env c (store st)]"
    by (simp add: accept_success[OF assms])
  have c: "activeChallenges (snd (accept_challenge env s cid st)) cid = None"
    by (simp add: accept_success[OF assms])
  have d: "accept_challenge env s' cid st = accept_challenge env s cid st"
    if "socket_displayName s' = socket_displayName s"
    using assms that by (simp add: accept_challenge_def Let_def split: prod.splits)
  have e: "player1_id (new_game env c (store st)) = challengerId c
       \<and> player2_id (new_game env c (store st)) = targetId c"
    by (simp add: new_game_def)
  show ?thesis using a b c d e by blast
qed

text \<open>The challenge of user 1 to user 2 is accepted from the socket of user 3: the game
  between the users 1 and 2 is created as when user 2 accepts. A socket with the id and
  the user id of user 3 and the display name of user 2 gets the same events sent as
  the socket of user 2.\<close>

theorem accept_ignores_the_acceptor_witness:
  "activeChallenges offered (1, 2, 1000)
     = Some \<lparr>challengeId = (1, 2, 1000), challengerId = 1, challengerName = ''alice'',
             challengerDisplayName = ''Alice'', targetId = 2, targetName = ''bob'',
             timestamp = 1000\<rparr>
   \<and> \<not> gameError env0 \<and> \<not> tilesError env0
   \<and> userId socketC = Some 3 \<and> userId socketB = Some 2
   \<and> snd (accept_challenge env0 socketC (1, 2, 1000) offered)
     = snd (accept_challenge env0 socketB (1, 2, 1000) offered)
   \<and> Games (store (snd (accept_challenge env0 socketC (1, 2, 1000) offered))) = [game1]
   \<and> socket_displayName (socketC\<lparr>userData := Some (carol\<lparr>displayName := ''Bob''\<rparr>)\<rparr>)
     = socket_displayName socketB
   \<and> accept_challenge env0 (socketC\<lparr>userData := Some (carol\<lparr>displayName := ''Bob''\<rparr>)\<rparr>)
        (1, 2, 1000) offered
     = accept_challenge env0 socketB (1, 2, 1000) offered"
proof -
  let ?c = "\<lparr>challengeId = (1, 2, 1000), challengerId = 1, challengerName = ''alice'',
             challengerDisplayName = ''Alice'', targetId = 2, targetName = ''bob'',
             timestamp = 1000\<rparr>"
  let ?s = "socketC\<lparr>userData := Some (carol\<lparr>displayName := ''Bob''\<rparr>)\<rparr>"
  have h1: "activeChallenges offered (1, 2, 1000) = Some ?c" by code_simp
  have h2: "\<not> gameError env0" by code_simp
  have h3: "\<not> tilesError env0" by code_simp
  have u: "userId socketC = Some 3 \<and> userId socketB = Some 2" by code_simp
  have n: "socket_displayName ?s = socket_displayName socketB" by code_simp
  have g: "new_game env0 ?c (store offered) = game1" by code_simp
  have e: "Games (store offered) = []" by code_simp
  note th1 = accept_ignores_the_acceptor[OF h1 h2 h3, of socketC socketB]
  note th2 = accept_ignores_the_acceptor[OF h1 h2 h3, of ?s socketB]
  from th1 have a: "snd (accept_challenge env0 socketC (1, 2, 1000) offered)
     = snd (accept_challenge env0 socketB (1, 2, 1000) offered)"
    by blast
  from th1 have "Games (store (snd (accept_challenge env0 socketB (1, 2, 1000) offered)))
           = Games (store offered) @ [new_game env0 ?c (store offered)]"
    by blast
  with a g e have b: "Games (store (snd (accept_challenge env0 socketC (1, 2, 1000) offered))) = [game1]"
    by simp
  from th2 n have c: "accept_challenge env0 ?s (1, 2, 1000) offered
     = accept_challenge env0 socketB (1, 2, 1000) offered"
    by blast
  show ?thesis using h1 h2 h3 u a b n c by blast
qed

section \<open>Conservation of the tiles\<close>

text \<open>When every tile row of a game is in one of the four places, the four places hold
  all the rows of the game.\<close>

lemma count_four:
  assumes "list_all (\<lambda>t. tile_gameID t = gid \<longrightarrow> location t \<in> set four_locations) ts"
  shows "length (filter (\<lambda>t. tile_gameID t = gid \<and> location t = ''player1_hand'') ts)
       + length (filter (\<lambda>t. tile_gameID t = gid \<and> location t = ''player2_hand'') ts)
       + length (filter (\<lambda>t. tile_gameID t = gid \<and> location t = ''board'') ts)
       + length (filter (\<lambda>t. tile_gameID t = gid \<and> location t = ''boneyard'') ts)
       = length (filter (\<lambda>t. tile_gameID t = gid) ts)"
  using assms by (induction ts) (auto simp: four_locations_def)

lemma partition_count: "tile_partition d gid \<Longrightarrow> tile_count d gid = 28"
  using count_four[of gid "GameTiles d"]
  by (simp add: tile_partition_def partition_rows_def tile_count_def tiles_at_def)

lemma partition_rows_map:
  assumes "\<And>t. tile_gameID (f t) = tile_gameID t"
    and "\<And>t. location (f t) = location t \<or> location (f t) \<in> set four_locations"
    and "partition_rows ts gid"
  shows "partition_rows (map f ts) gid"
proof -
  have 1: "filter (\<lambda>t. tile_gameID t = gid) (map f ts)
         = map f (filter (\<lambda>t. tile_gameID t = gid) ts)"
    by (induction ts) (simp_all add: assms(1))
  have 2: "list_all (\<lambda>t. tile_gameID t = gid \<longrightarrow> location t \<in> set four_locations) ts
        \<Longrightarrow> list_all (\<lambda>t. tile_gameID t = gid \<longrightarrow> location t \<in> set four_locations) (map f ts)"
  proof (induction ts)
    case Nil
    then show ?case by simp
  next
    case (Cons a ts)
    then show ?case using assms(1)[of a] assms(2)[of a] by auto
  qed
  show ?thesis using assms(3) 1 2 by (simp add: partition_rows_def)
qed

lemma partition_rows_shift_one: "partition_rows ts gid \<Longrightarrow> partition_rows (shift_one e ts) gid"
  unfolding shift_one_def by (rule partition_rows_map) simp_all

lemma partition_rows_shift_board:
  "partition_rows ts gid \<Longrightarrow> partition_rows (shift_board g ts) gid"
proof -
  have "partition_rows ts gid \<Longrightarrow> partition_rows (foldl (\<lambda>acc e. shift_one e acc) ts es) gid"
    for es
    by (induction es arbitrary: ts) (simp_all add: partition_rows_shift_one)
  then show "partition_rows ts gid \<Longrightarrow> partition_rows (shift_board g ts) gid"
    by (simp add: shift_board_def)
qed

text \<open>The deal puts the 28 tiles of a new game into the places, and every play keeps
  them there: a play moves a row from a hand to the board.\<close>

lemma accept_partition:
  assumes "activeChallenges st cid = Some c" "\<not> gameError env" "\<not> tilesError env"
    and fresh: "list_all (\<lambda>t. tile_gameID t \<noteq> next_gameID (store st)) (GameTiles (store st))"
  shows "tile_partition (store (snd (accept_challenge env s cid st))) (next_gameID (store st))"
proof -
  let ?all = "generateAndShuffleDominoes (random_js env)"
  let ?g = "next_gameID (store st)"
  let ?dealt = "tileInserts ?g (next_titleID (store st)) (tilesToInsert ?all)"
  have len: "length ?all = 28" by (rule length_generate)
  have gids: "map tile_gameID ?dealt = replicate 28 ?g"
    by (simp add: tileInserts_gameID length_tilesToInsert len)
  have locs: "map location ?dealt
      = replicate 7 ''player1_hand'' @ replicate 7 ''player2_hand'' @ replicate 14 ''boneyard''"
    by (simp add: tileInserts_location tilesToInsert_locations[OF len])
  have old: "filter (\<lambda>t. tile_gameID t = ?g) (GameTiles (store st)) = []"
    using fresh by (induction "GameTiles (store st)") (auto simp: list_all_iff filter_empty_conv)
  have cnt: "length (filter (\<lambda>t. tile_gameID t = ?g) ts)
      = length (filter (\<lambda>x. x = ?g) (map tile_gameID ts))" for ts
    by (induction ts) auto
  have new: "length (filter (\<lambda>t. tile_gameID t = ?g) ?dealt) = 28"
    unfolding cnt gids by simp
  have "set (map location ?dealt) \<subseteq> set four_locations"
    by (simp only: locs) (auto simp: four_locations_def)
  then have ok: "list_all (\<lambda>t. tile_gameID t = ?g \<longrightarrow> location t \<in> set four_locations) ?dealt"
    by (auto simp: list_all_iff)
  have ok_old: "list_all (\<lambda>t. tile_gameID t = ?g \<longrightarrow> location t \<in> set four_locations)
                  (GameTiles (store st))"
    using fresh by (auto simp: list_all_iff)
  show ?thesis
    using old new ok ok_old
    by (simp add: accept_success[OF assms(1-3)] tile_partition_def partition_rows_def)
qed

lemma play_route_partition:
  assumes "tile_partition d gid"
  shows "tile_partition (snd (play_route u uuid body d)) gid"
proof -
  have P: "partition_rows
        (map (\<lambda>t. if titleID t = k \<and> tile_gameID t = g then updateData body t else t) ts) gid"
    if "partition_rows ts gid" for ts k g
    by (rule partition_rows_map[OF _ _ that]) (simp_all add: four_locations_def)
  have Q1: "partition_rows (shift_board g (GameTiles d)) gid" for g
    using assms by (simp add: tile_partition_def partition_rows_shift_board)
  have Q2: "partition_rows (GameTiles d) gid"
    using assms by (simp add: tile_partition_def)
  show ?thesis
    using assms P[OF Q1] P[OF Q2]
    by (simp add: play_route_def Let_def tile_partition_def split: option.splits)
qed

lemma pass_route_partition:
  "tile_partition d gid \<Longrightarrow> tile_partition (snd (pass_route u uuid d)) gid"
  by (simp add: pass_route_def Let_def tile_partition_def split: option.splits)

lemma end_route_partition:
  "tile_partition d gid \<Longrightarrow> tile_partition (snd (end_route u uuid w d)) gid"
  by (simp add: end_route_def tile_partition_def)

text \<open>A draw keeps the tiles in the four places when the location that the request names
  is one of them: the route takes the new location of the drawn tile from the body of
  the request.\<close>

lemma draw_route_partition:
  assumes "tile_partition d gid" and "playerLocation \<in> set four_locations"
  shows "tile_partition (snd (draw_route u uuid playerLocation d)) gid"
proof -
  have P: "partition_rows
        (map (\<lambda>t. if titleID t = k then t\<lparr>location := playerLocation\<rparr> else t) (GameTiles d)) gid"
    for k
    using assms(1)[unfolded tile_partition_def]
    by (rule partition_rows_map[rotated 2]) (simp_all add: assms(2))
  show ?thesis
    using assms(1) P
    by (simp add: draw_route_def Let_def tile_partition_def split: option.splits list.splits)
qed

text \<open>
  Claim C3. The two hands, the chain and the draw pile of a dealt game hold its 28 tiles,
  and every play keeps them there (the lemmas above). Not every draw does: the draw
  route moves the drawn tile to the location named in the body of the request (a hand,
  by the comment at that line), which it neither checks nor derives from the turn as the
  play route does. In the dealt game user 1, whose turn it is, draws with the location
  \<open>nowhere\<close>: the request succeeds, the tile \<open>[2|3]\<close> leaves the boneyard for a place
  that is none of the four, and the four places hold 27 tiles.
\<close>

theorem draw_to_unknown_location_loses_tile:
  "tile_count dealt_db 1 = 28
   \<and> map current_turn (Games dealt_db) = [1]
   \<and> fst (draw_route (Some 1) ''g1'' ''nowhere'' dealt_db)
     = Inr (DrawOk \<lparr>titleID = 15, tile_gameID = 1, top_value = 2, bottom_value = 3,
                    location = ''nowhere'', board_position = - 1\<rparr> 13)
   \<and> length (tiles_at (snd (draw_route (Some 1) ''g1'' ''nowhere'' dealt_db)) 1 ''boneyard'') = 13
   \<and> tile_count (snd (draw_route (Some 1) ''g1'' ''nowhere'' dealt_db)) 1 = 27"
  by code_simp

section \<open>The challenges and the registry of sockets\<close>

text \<open>\<open>send-challenge\<close> stores the challenge before it looks for the target.\<close>

lemma send_challenge_stores:
  "activeChallenges (snd (send_challenge N S n1 n2 s p st))
     (p_challengerId p, p_targetId p, n1) \<noteq> None"
  by (simp add: send_challenge_def Let_def split: option.splits)

lemma send_challenge_unreachable:
  assumes "lookup_target N S (userSocketMap st) (p_targetId p) = None"
  shows "fst (send_challenge N S n1 n2 s p st)
       = [ToSocket (socket_id s) (ChallengeError ''User is not online'')]"
  using assms by (simp add: send_challenge_def Let_def)

text \<open>
  Claim C5. User 1 is registered on socket 10 and user 2 is not registered. The challenge
  of user 1 to user 2 is answered with the error \<open>User is not online\<close>, sent to the
  socket 10 only, as the claim says; but the challenge has been stored: before the
  event no challenge has the id, after it the map of challenges holds the challenge
  under that id.
\<close>

theorem offer_to_offline_target_is_stored:
  "userSocketMap alone 2 = None
   \<and> lookup_target id id (userSocketMap alone) (p_targetId offer) = None
   \<and> activeChallenges alone (1, 2, 1000) = None
   \<and> fst (send_challenge id id 1000 1000 socketA offer alone)
     = [ToSocket 10 (ChallengeError ''User is not online'')]
   \<and> activeChallenges (snd (send_challenge id id 1000 1000 socketA offer alone)) (1, 2, 1000)
     = Some \<lparr>challengeId = (1, 2, 1000), challengerId = 1, challengerName = ''alice'',
             challengerDisplayName = ''Alice'', targetId = 2, targetName = ''bob'',
             timestamp = 1000\<rparr>"
  by code_simp

text \<open>The handler of \<open>disconnect\<close> removes the entry of the user of the socket, whatever
  socket the entry names.\<close>

lemma challenge_disconnect_unregisters:
  "userId s = Some u \<Longrightarrow> u \<noteq> 0 \<Longrightarrow> userSocketMap (challenge_disconnect s st) u = None"
  by (simp add: challenge_disconnect_def)

text \<open>
  Claim C9. User 1 registers on socket 10 and then again on socket 11, so the registry
  maps user 1 to socket 11. When the stale socket 10 disconnects, the handler deletes
  the entry of user 1 without comparing the stored socket with the one that
  disconnects: user 1 is no longer registered, although socket 11 is open.
\<close>

theorem stale_disconnect_unregisters_user:
  "socket_id socketA = 10 \<and> userId socketA = Some 1
   \<and> userSocketMap reconnected 1 = Some 11
   \<and> userSocketMap (challenge_disconnect socketA reconnected) 1 = None"
  by code_simp

section \<open>The forfeit timer\<close>

text \<open>A player who joins the game again before the timer fires cancels the timer; the
  store is not touched.\<close>

lemma rejoin_cancels_timer:
  assumes "disconnectTimeouts gs (gid, p) = Some h"
  shows "timers (join_game sock gid p gs) h = None
       \<and> disconnectTimeouts (join_game sock gid p gs) (gid, p) = None
       \<and> games_store (join_game sock gid p gs) = games_store gs"
  using assms by (simp add: join_game_def clearTimeout_def Let_def)

text \<open>A callback that runs to its end removes the game, and a timer of that game that
  fires later does nothing.\<close>

lemma timeout_finish_removes_game:
  "map_of (activeGames (snd (timeout_finish f gs))) (frame_gameId f) = None"
proof -
  have "map_of (filter (\<lambda>(k, game). k \<noteq> g) xs) g = None" for g :: string
    and xs :: "(string \<times> active_game) list"
    by (induction xs) auto
  then show ?thesis by (simp add: timeout_finish_def)
qed

lemma timeout_begin_after_removal:
  assumes "timers gs h = Some (gid, p)" and "map_of (activeGames gs) gid = None"
  shows "fst (timeout_begin h gs) = None
       \<and> games_store (snd (timeout_begin h gs)) = games_store gs"
  using assms by (simp add: timeout_begin_def Let_def)

lemma forfeit_in_sequence:
  "fst (timeout_begin 1 both_dropped)
     = Some \<lparr>frame_gameId = ''g1'', frame_playerId = 1, frame_player1Id = Some 1,
             frame_player2Id = Some 2\<rparr>
   \<and> fst (timeout_begin 2 (snd (timeout_finish
        \<lparr>frame_gameId = ''g1'', frame_playerId = 1, frame_player1Id = Some 1,
         frame_player2Id = Some 2\<rparr> first_fired))) = None
   \<and> Games (games_store (snd (timeout_begin 2 (snd (timeout_finish
        \<lparr>frame_gameId = ''g1'', frame_playerId = 1, frame_player1Id = Some 1,
         frame_player2Id = Some 2\<rparr> first_fired)))))
     = [\<lparr>gameID = 1, game_uuid = ''g1'', player1_id = 1, player2_id = 2,
         current_turn = 1, status = ''completed'', winner_id = 2, boneyard_count = 14\<rparr>]"
  by code_simp

text \<open>
  Claim C8. The callback of the timer looks for the game in \<open>activeGames\<close> (\<open>Game already
  cleaned up\<close>) before it waits for the store, and removes the game after the answer.
  Both players of the game drop, one after the other, and neither joins again: two
  timers are held, one for each player. The timer of user 1 fires and its callback
  completes the game with user 2 as winner; while it waits for the store the timer of
  user 2 fires, finds the game still in \<open>activeGames\<close>, and completes the game a second
  time, with user 1 as winner. Both callbacks then send \<open>opponent-disconnected\<close>.
  The game is completed twice, and the winner the store keeps is the player who dropped
  first.
\<close>

theorem overlapping_forfeits_complete_twice:
  "timers both_dropped 1 = Some (''g1'', 1) \<and> timers both_dropped 2 = Some (''g1'', 2)
   \<and> Games (games_store both_dropped) = [game1]
   \<and> fst (timeout_begin 1 both_dropped)
     = Some \<lparr>frame_gameId = ''g1'', frame_playerId = 1, frame_player1Id = Some 1,
             frame_player2Id = Some 2\<rparr>
   \<and> Games (games_store first_fired)
     = [\<lparr>gameID = 1, game_uuid = ''g1'', player1_id = 1, player2_id = 2,
         current_turn = 1, status = ''completed'', winner_id = 2, boneyard_count = 14\<rparr>]
   \<and> fst (timeout_begin 2 first_fired)
     = Some \<lparr>frame_gameId = ''g1'', frame_playerId = 2, frame_player1Id = Some 1,
             frame_player2Id = Some 2\<rparr>
   \<and> Games (games_store second_fired)
     = [\<lparr>gameID = 1, game_uuid = ''g1'', player1_id = 1, player2_id = 2,
         current_turn = 1, status = ''completed'', winner_id = 1, boneyard_count = 14\<rparr>]
   \<and> fst (timeout_finish \<lparr>frame_gameId = ''g1'', frame_playerId = 1,
             frame_player1Id = Some 1, frame_player2Id = Some 2\<rparr> second_fired)
     = [ToRoom ''g1'' OpponentDisconnected, ToEveryone (UserAvailable 1),
        ToEveryone (UserAvailable 2)]
   \<and> fst (timeout_finish \<lparr>frame_gameId = ''g1'', frame_playerId = 2,
             frame_player1Id = Some 1, frame_player2Id = Some 2\<rparr>
           (snd (timeout_finish \<lparr>frame_gameId = ''g1'', frame_playerId = 1,
             frame_player1Id = Some 1, frame_player2Id = Some 2\<rparr> second_fired)))
     = [ToRoom ''g1'' OpponentDisconnected, ToEveryone (UserAvailable 1),
        ToEveryone (UserAvailable 2)]"
  by code_simp

end
